theory Spec2Isabelle
  imports Complex_Main "HOL-Library.AList"
begin

section \<open>Numbers\<close>

text \<open>
  JavaScript numbers are IEEE 754 doubles. Two models of them are used.

  Where the magnitudes are moderate and only rounding separates a double from the exact
  result (the angle conversions, the pointer geometry of the rotatable control, the
  fields of the airplane), a number is a real and arithmetic is exact; NaN and the
  infinities are outside this model.

  Where overflow or absorption changes what the code does (the loops of
  \<^verbatim>\<open>angularDelta\<close> and the interpolation of \<^verbatim>\<open>lerp\<close>), a number is a \<open>double\<close>, defined in
  the next section, and every operation rounds.

  The remainder operator \<^verbatim>\<open>n % d\<close> of JavaScript truncates the quotient towards zero, so
  the result carries the sign of the dividend \<open>n\<close>. Every use in the sources divides by
  the constant 360.
\<close>

type_synonym number = real

definition js_trunc :: "number \<Rightarrow> int" where
  "js_trunc x = (if 0 \<le> x then \<lfloor>x\<rfloor> else \<lceil>x\<rceil>)"

definition js_rem :: "number \<Rightarrow> number \<Rightarrow> number" where
  "js_rem n d = n - d * of_int (js_trunc (n / d))"

section \<open>Double-precision arithmetic\<close>

text \<open>
  A double is a finite number, an infinity or NaN. The two zeros are identified, so a
  division by zero is a division by \<open>+0\<close>.

  \<open>fl\<close> rounds an exact result to the nearest double, ties to even: \<open>rne\<close> rounds to the
  nearest integer, ties to even; \<open>expo v\<close> is the exponent of the unit in the last place
  of the binade of \<open>v\<close> (52 places below its leading bit, and never below the subnormal
  spacing \<open>2 powr - 1074\<close>); a result of magnitude at least \<open>2 ^ 1024 - 2 ^ 970\<close>, half a
  unit beyond the largest double, overflows to an infinity.
\<close>

datatype double = Finite real | PosInfinity | NegInfinity | NaN















section \<open>Vector/Angle Math (geometry/angle)\<close>

text \<open>
  \<^verbatim>\<open>export const C2D = angle => { return (270 + angle) % 360; };\<close>
  \<^verbatim>\<open>export const D2C = angle => { return (angle - 90) % 360; };\<close>
\<close>

definition C2D :: "number \<Rightarrow> number" where
  "C2D angle = js_rem (270 + angle) 360"

definition D2C :: "number \<Rightarrow> number" where
  "D2C angle = js_rem (angle - 90) 360"

definition D2R :: "number \<Rightarrow> number" where
  "D2R d = d * (pi / 180)"

definition R2D :: "number \<Rightarrow> number" where
  "R2D r = r * (180 / pi)"

text \<open>
  \<^verbatim>\<open>Math.atan2(y, x)\<close>: the angle of the point \<open>(x, y)\<close> in \<open>(-pi, pi]\<close>, a platform
  function, written out by quadrant.
\<close>

definition atan2 :: "number \<Rightarrow> number \<Rightarrow> number" where
  "atan2 y x =
     (if 0 < x then arctan (y / x)
      else if x < 0 then (if 0 \<le> y then arctan (y / x) + pi else arctan (y / x) - pi)
      else if 0 < y then pi / 2
      else if y < 0 then - (pi / 2)
      else 0)"

record Vector2D =
  x :: number
  y :: number

text \<open>
  \<^verbatim>\<open>
  export const angleFrom = (center, position) => {
    let a = (Math.atan2(position.y - center.y, position.x - center.x) * 180) / Math.PI;
    if (a < 0) { a = 180 + (180 + a); }
    return a;
  };
  \<close>
\<close>

definition angleFrom :: "Vector2D \<Rightarrow> Vector2D \<Rightarrow> number" where
  "angleFrom center position =
     (let a = (atan2 (y position - y center) (x position - x center) * 180) / pi
      in if a < 0 then 180 + (180 + a) else a)"

text \<open>
  \<^verbatim>\<open>
  export const angularDelta = (firstAngle, secondAngle) => {
    let difference = secondAngle - firstAngle;
    while (difference < -180) difference += 360;
    while (difference > 180) difference -= 360;
    return difference;
  };
  \<close>
  In the exact model each \<^verbatim>\<open>while\<close> loop is a recursive function of the loop variable,
  which terminates because every turn moves the exact difference by 360. This model
  stands for the code where the angles are moderate, as in the rotatable control, which
  passes angles between 0 and 360.
\<close>

function angularDelta_raise :: "number \<Rightarrow> number" where
  "angularDelta_raise difference =
     (if difference < -180 then angularDelta_raise (difference + 360) else difference)"
  by pat_completeness auto
termination
proof (relation "measure (\<lambda>d. nat \<lceil>(-180 - d) / 360\<rceil>)")
  show "wf (measure (\<lambda>d::real. nat \<lceil>(-180 - d) / 360\<rceil>))" by simp
next
  fix difference :: real
  assume lt: "difference < -180"
  have eq: "(-180 - (difference + 360)) / 360 = (-180 - difference) / 360 - 1"
    by (simp add: field_simps)
  have pos: "0 < \<lceil>(-180 - difference) / 360\<rceil>"
    using lt by (simp add: field_simps)
  have "\<lceil>(-180 - (difference + 360)) / 360\<rceil> = \<lceil>(-180 - difference) / 360\<rceil> - 1"
    unfolding eq by simp
  with pos show "(difference + 360, difference) \<in> measure (\<lambda>d. nat \<lceil>(-180 - d) / 360\<rceil>)"
    by simp
qed

function angularDelta_lower :: "number \<Rightarrow> number" where
  "angularDelta_lower difference =
     (if difference > 180 then angularDelta_lower (difference - 360) else difference)"
  by pat_completeness auto
termination
proof (relation "measure (\<lambda>d. nat \<lceil>(d - 180) / 360\<rceil>)")
  show "wf (measure (\<lambda>d::real. nat \<lceil>(d - 180) / 360\<rceil>))" by simp
next
  fix difference :: real
  assume gt: "difference > 180"
  have eq: "(difference - 360 - 180) / 360 = (difference - 180) / 360 - 1"
    by (simp add: field_simps)
  have pos: "0 < \<lceil>(difference - 180) / 360\<rceil>"
    using gt by (simp add: field_simps)
  have "\<lceil>(difference - 360 - 180) / 360\<rceil> = \<lceil>(difference - 180) / 360\<rceil> - 1"
    unfolding eq by simp
  with pos show "(difference - 360, difference) \<in> measure (\<lambda>d. nat \<lceil>(d - 180) / 360\<rceil>)"
    by simp
qed

declare angularDelta_raise.simps [simp del]
declare angularDelta_lower.simps [simp del]

definition angularDelta :: "number \<Rightarrow> number \<Rightarrow> number" where
  "angularDelta firstAngle secondAngle =
     angularDelta_lower (angularDelta_raise (secondAngle - firstAngle))"





section \<open>Values, callbacks and the console\<close>

text \<open>
  Function values are compared by reference (\<^verbatim>\<open>===\<close>, \<^verbatim>\<open>indexOf\<close>), so a function is
  modelled by its identity: \<open>Fun n\<close> is the \<open>n\<close>-th function of the application and
  \<open>Noop\<close> is the arrow function \<^verbatim>\<open>() => {}\<close>. A JavaScript value is one of the
  primitive values or a function.
\<close>

datatype callback = Noop | Fun nat

datatype jsval = Undefined | Null | Boolean bool | Num number | Str string | Function callback

fun is_function :: "jsval \<Rightarrow> bool" where
  "is_function (Function f) = True"
| "is_function v = False"

text \<open>
  \<^verbatim>\<open>console.assert(condition, message)\<close> writes the message to the console when the
  condition is false and returns; it never throws, so the statements after a failed
  assertion still run. The console is the list of messages written so far.
\<close>

definition console_assert :: "bool \<Rightarrow> string \<Rightarrow> string list \<Rightarrow> string list" where
  "console_assert condition message out = (if condition then out else out @ [message])"

section \<open>Disposal and notification registry (disposable)\<close>

record Disposable =
  disposeFunctions :: "jsval list"
  listeners :: "jsval list"
  disposed :: bool
  console :: "string list"
  notified :: "jsval list"

definition Disposable_new :: Disposable where
  "Disposable_new =
     \<lparr> disposeFunctions = [], listeners = [], disposed = False, console = [], notified = [] \<rparr>"

text \<open>
  \<^verbatim>\<open>
  addListener(func) {
    console.assert(func && typeof func === "function", "expected a callback");
    console.assert(this.listeners.indexOf(func) < 0, "listener already registered");
    this.listeners.push(func);
  }
  removeListener(func) {
    console.assert(func && typeof func === "function", "expected a callback");
    console.assert(this.listeners.indexOf(func) >= 0, "listener is not registered");
    this.listeners = this.listeners.filter(f => f !== func);
  }
  removeAllListeners() { this.listeners.length = 0; }
  \<close>
\<close>

definition addListener :: "jsval \<Rightarrow> ('a Disposable_scheme) \<Rightarrow> ('a Disposable_scheme)" where
  "addListener func this =
     (let c1 = console_assert (is_function func) ''expected a callback'' (console this);
          c2 = console_assert (func \<notin> set (listeners this)) ''listener already registered'' c1
      in this\<lparr> console := c2, listeners := listeners this @ [func] \<rparr>)"

definition removeListener :: "jsval \<Rightarrow> ('a Disposable_scheme) \<Rightarrow> ('a Disposable_scheme)" where
  "removeListener func this =
     (let c1 = console_assert (is_function func) ''expected a callback'' (console this);
          c2 = console_assert (func \<in> set (listeners this)) ''listener is not registered'' c1
      in this\<lparr> console := c2, listeners := filter (\<lambda>f. f \<noteq> func) (listeners this) \<rparr>)"

text \<open>
  \<^verbatim>\<open>callListeners() { this.listeners.forEach(l => l(this)); }\<close>
  Listeners are opaque: \<open>notified\<close> lists the listeners called so far, in order.
\<close>

definition callListeners :: "('a Disposable_scheme) \<Rightarrow> ('a Disposable_scheme)" where
  "callListeners this = this\<lparr> notified := notified this @ listeners this \<rparr>"

definition removeAllListeners :: "('a Disposable_scheme) \<Rightarrow> ('a Disposable_scheme)" where
  "removeAllListeners this = this\<lparr> listeners := [] \<rparr>"

datatype listener_op = AddListener jsval | RemoveListener jsval | RemoveAllListeners

fun listener_step :: "('a Disposable_scheme) \<Rightarrow> listener_op \<Rightarrow> ('a Disposable_scheme)" where
  "listener_step this (AddListener func) = addListener func this"
| "listener_step this (RemoveListener func) = removeListener func this"
| "listener_step this RemoveAllListeners = removeAllListeners this"

definition listener_run :: "listener_op list \<Rightarrow> ('a Disposable_scheme) \<Rightarrow> ('a Disposable_scheme)" where
  "listener_run ops this = foldl listener_step this ops"

section \<open>Keyed animation set (animated)\<close>

text \<open>
  The \<^verbatim>\<open>lerps\<close> object maps a key to the cancel function of the animation running
  under it. A JavaScript object keeps its string keys in insertion order
  (\<^verbatim>\<open>Object.values\<close> reads them in that order), so the table is an association list:
  \<^verbatim>\<open>lerps[key]\<close> is \<open>map_of\<close>, \<^verbatim>\<open>lerps[key] = f\<close> is \<open>AList.update\<close> (a present key keeps
  its place, a new key goes last) and \<^verbatim>\<open>delete lerps[key]\<close> is \<open>AList.delete\<close>.

  Keys are plain names such as \<^verbatim>\<open>"scale"\<close> or \<^verbatim>\<open>"airspeed"\<close>; the names an object inherits
  from \<^verbatim>\<open>Object.prototype\<close> are outside the model.

  The trace lists, in program order, every call of a cancel function and every write
  to the table.
\<close>

datatype lerp_event = Invoked callback | Stored string callback | Deleted string

record Animated = Disposable +
  lerps :: "(string \<times> callback) list"
  lerpTrace :: "lerp_event list"

text \<open>
  \<^verbatim>\<open>
  addLerp(key, callback) {
    this.cancelLerp(key);
    this.lerps[key] = callback;
  }
  cancelLerp(key) {
    if (this.lerps[key]) {
      this.lerps[key]();
      delete this.lerps[key];
    }
  }
  cancelAllLerps() {
    Object.values(this.lerps).forEach(f => f());
    this.lerps = {};
  }
  \<close>
  A stored cancel function is a function, hence truthy.
\<close>

definition cancelLerp :: "string \<Rightarrow> ('a Animated_scheme) \<Rightarrow> ('a Animated_scheme)" where
  "cancelLerp key this =
     (case map_of (lerps this) key of
        Some f \<Rightarrow> this\<lparr> lerpTrace := lerpTrace this @ [Invoked f, Deleted key],
                        lerps := AList.delete key (lerps this) \<rparr>
      | None \<Rightarrow> this)"

definition addLerp :: "string \<Rightarrow> callback \<Rightarrow> ('a Animated_scheme) \<Rightarrow> ('a Animated_scheme)" where
  "addLerp key cb this =
     (let this1 = cancelLerp key this
      in this1\<lparr> lerpTrace := lerpTrace this1 @ [Stored key cb],
                 lerps := AList.update key cb (lerps this1) \<rparr>)"

definition cancelAllLerps :: "('a Animated_scheme) \<Rightarrow> ('a Animated_scheme)" where
  "cancelAllLerps this =
     this\<lparr> lerpTrace := lerpTrace this @ map Invoked (map snd (lerps this)), lerps := [] \<rparr>"

text \<open>A new object has no animation and an empty trace.\<close>

definition Animated_new :: Animated where
  "Animated_new = Disposable.extend Disposable_new (Animated.fields [] [])"

datatype lerp_op = AddLerp string callback | CancelLerp string | CancelAllLerps

fun lerp_step :: "('a Animated_scheme) \<Rightarrow> lerp_op \<Rightarrow> ('a Animated_scheme)" where
  "lerp_step this (AddLerp key cb) = addLerp key cb this"
| "lerp_step this (CancelLerp key) = cancelLerp key this"
| "lerp_step this CancelAllLerps = cancelAllLerps this"

text \<open>
  The animations a trace leaves running: an animation runs under its key from the
  moment its cancel function is stored until that function is called.
\<close>

fun running_step :: "(string \<times> callback) set \<Rightarrow> lerp_event \<Rightarrow> (string \<times> callback) set" where
  "running_step R (Stored key f) = insert (key, f) R"
| "running_step R (Invoked f) = {kf \<in> R. snd kf \<noteq> f}"
| "running_step R (Deleted key) = R"

definition running :: "lerp_event list \<Rightarrow> (string \<times> callback) set" where
  "running trace = foldl running_step {} trace"

text \<open>
  The table and its trace agree: no key occurs twice in the table, and every animation
  the trace leaves running is the one the table holds under its key. So at most one
  animation runs under a key.
\<close>

definition table_ok :: "(string \<times> callback) list \<Rightarrow> lerp_event list \<Rightarrow> bool" where
  "table_ok table trace =
     (distinct (map fst table) \<and> (\<forall>kf \<in> running trace. map_of table (fst kf) = Some (snd kf)))"

section \<open>Animation clock (utils/time: lerp)\<close>

text \<open>
  \<^verbatim>\<open>
  export const lerp = (from, to, time, callback, ease = true) => {
    console.assert(isFinite(from) && isFinite(to) && isFinite(time) && time > 0,
      "invalid parameters");
    const startTime = Date.now();
    const endTime = startTime + time;
    let requestId = 0;
    const timer = () => {
      let value = to;
      const now = Date.now();
      if (now < endTime) {
        const delta = now - startTime;
        const normalized = ease ? Math.sin((delta / time) * (Math.PI / 2)) : delta / time;
        value = from + normalized * (to - from);
        requestId = requestAnimationFrame(timer);
      } else {
        requestId = 0;
      }
      callback(value);
    };
    requestId = requestAnimationFrame(timer);
    return () => { if (requestId) { cancelAnimationFrame(requestId); } };
  };
  \<close>
  The closure's variables are the fields of a record, and its numbers are doubles. The
  platform is explicit: \<^verbatim>\<open>requestAnimationFrame\<close> hands out fresh positive ids
  (\<open>lastRequest\<close> is the last one) and \<open>pending\<close> is the request waiting for the next
  frame, if any; \<^verbatim>\<open>Date.now()\<close> is an argument. \<open>delivered\<close> lists the values passed to
  \<^verbatim>\<open>callback\<close>, in order.
\<close>

record Lerp =
  lerpFrom :: double
  lerpTo :: double
  lerpTime :: double
  ease :: bool
  startTime :: double
  endTime :: double
  requestId :: nat
  lastRequest :: nat
  pending :: "nat option"
  delivered :: "double list"
  lerpConsole :: "string list"




text \<open>The returned cancel function.\<close>

definition lerp_cancel :: "Lerp \<Rightarrow> Lerp" where
  "lerp_cancel l =
     (if requestId l \<noteq> 0
      then l\<lparr> pending := (if pending l = Some (requestId l) then None else pending l) \<rparr>
      else l)"




section \<open>AnimatedValue (utils/time)\<close>

text \<open>
  \<^verbatim>\<open>
  constructor(value, options = {}) {
    Object.assign(this, options, {
      lowLimit: -Number.MAX_VALUE, hiLimit: Number.MAX_VALUE, time: 1000, callback: () => {}
    });
    this.value = Math.max(this.lowLimit, Math.min(this.hiLimit, value));
    this.currentValue = value;
  }
  \<close>
  An object is a finite map from property names to values. \<^verbatim>\<open>Object.assign\<close> copies the
  properties of each source into the target, from left to right, so a later source
  overwrites an earlier one.
\<close>

type_synonym object = "string \<rightharpoonup> jsval"

definition Object_assign :: "object \<Rightarrow> object list \<Rightarrow> object" where
  "Object_assign target sources = foldl (++) target sources"

definition MAX_VALUE :: number where
  "MAX_VALUE = (2 ^ 53 - 1) * 2 ^ 971"

definition AnimatedValue_defaults :: object where
  "AnimatedValue_defaults =
     [''lowLimit'' \<mapsto> Num (- MAX_VALUE), ''hiLimit'' \<mapsto> Num MAX_VALUE,
      ''time'' \<mapsto> Num 1000, ''callback'' \<mapsto> Function Noop]"

text \<open>
  \<^verbatim>\<open>Math.max\<close> and \<^verbatim>\<open>Math.min\<close> are applied to the limits read back from the object. The
  result is \<open>None\<close> if a limit read back is not a number (the coercions of JavaScript are
  not modelled).
\<close>

definition AnimatedValue_new :: "number \<Rightarrow> object \<Rightarrow> object option" where
  "AnimatedValue_new v options =
     (let this = Object_assign Map.empty [options, AnimatedValue_defaults]
      in case (this ''lowLimit'', this ''hiLimit'') of
           (Some (Num lo), Some (Num hi)) \<Rightarrow>
             Some (this(''value'' \<mapsto> Num (max lo (min hi v)), ''currentValue'' \<mapsto> Num v))
         | _ \<Rightarrow> None)"

section \<open>Aircraft state model (airplane)\<close>

text \<open>
  The airplane starts its animations with \<^verbatim>\<open>lerp(from, to, time, callback)\<close>. The model
  records each call: \<open>lerpCalls\<close> lists the calls made so far, and the cancel function
  returned by the \<open>n\<close>-th call is \<open>Fun n\<close>. A call's callback writes one field of the
  airplane and notifies the listeners; \<open>callField\<close> names that field. The class has its
  own \<^verbatim>\<open>addLerp\<close> and \<^verbatim>\<open>cancelLerp\<close>, with the same text as those of Animated.
\<close>

datatype field =
  Airspeed | Rpm | Altitude | AltitudeRate | Barometer | Heading | Roll | RollRate | Pitch | Yaw

record LerpCall =
  callFrom :: number
  callTo :: number
  callTime :: number
  callField :: field

record Airplane = Disposable +
  VS0 :: number
  VS1 :: number
  VR :: number
  VLOF :: number
  VFE :: number
  VA :: number
  VNO :: number
  VNE :: number
  MAX_DISPLAYED_SPEED :: number
  SERVICE_CEILING :: number
  airspeed :: number
  airspeedRate :: number
  altitude :: number
  altitudeRate :: number
  staticPressure :: number
  barometer :: number
  heading :: number
  headingRate :: number
  pitch :: number
  pitchRate :: number
  roll :: number
  rollRate :: number
  yaw :: number
  yawRate :: number
  idle :: number
  redLine :: number
  greenMin :: number
  rpm :: number
  lerps :: "(string \<times> callback) list"
  lerpTrace :: "lerp_event list"
  lerpCalls :: "LerpCall list"

definition STANDARD_BAROMETER :: number where
  "STANDARD_BAROMETER = 2992 / 100"

definition Airplane_new :: Airplane where
  "Airplane_new = Disposable.extend Disposable_new
     (Airplane.fields 40 50 55 60 85 95 130 157 200 17000
        0 0 0 0 STANDARD_BAROMETER STANDARD_BAROMETER 0 0 0 0 0 0 0 0
        1000 2700 2000 0 [] [] [])"

definition Airplane_cancelLerp :: "string \<Rightarrow> Airplane \<Rightarrow> Airplane" where
  "Airplane_cancelLerp key this =
     (case map_of (lerps this) key of
        Some f \<Rightarrow> this\<lparr> lerpTrace := lerpTrace this @ [Invoked f, Deleted key],
                        lerps := AList.delete key (lerps this) \<rparr>
      | None \<Rightarrow> this)"

definition Airplane_addLerp :: "string \<Rightarrow> callback \<Rightarrow> Airplane \<Rightarrow> Airplane" where
  "Airplane_addLerp key cb this =
     (let this1 = Airplane_cancelLerp key this
      in this1\<lparr> lerpTrace := lerpTrace this1 @ [Stored key cb],
                 lerps := AList.update key cb (lerps this1) \<rparr>)"

text \<open>
  The dispose function the constructor registers:
  \<^verbatim>\<open>() => { Object.values(this.lerps).forEach(f => f()); this.lerps = {}; }\<close>
\<close>

definition Airplane_cancelAll :: "Airplane \<Rightarrow> Airplane" where
  "Airplane_cancelAll this =
     this\<lparr> lerpTrace := lerpTrace this @ map Invoked (map snd (lerps this)), lerps := [] \<rparr>"

fun Airplane_lerp_step :: "Airplane \<Rightarrow> lerp_op \<Rightarrow> Airplane" where
  "Airplane_lerp_step this (AddLerp key cb) = Airplane_addLerp key cb this"
| "Airplane_lerp_step this (CancelLerp key) = Airplane_cancelLerp key this"
| "Airplane_lerp_step this CancelAllLerps = Airplane_cancelAll this"

text \<open>
  The call \<^verbatim>\<open>lerp(from, to, time, callback)\<close> made by a setter: the assertion of
  \<^verbatim>\<open>lerp\<close> on its parameters, the record of the call, and the cancel function returned.
\<close>

definition Airplane_lerp ::
  "number \<Rightarrow> number \<Rightarrow> number \<Rightarrow> field \<Rightarrow> Airplane \<Rightarrow> callback \<times> Airplane" where
  "Airplane_lerp from to time fld this =
     (Fun (length (lerpCalls this)),
      this\<lparr> console := console_assert (time > 0) ''invalid parameters'' (console this),
            lerpCalls := lerpCalls this
              @ [\<lparr> callFrom = from, callTo = to, callTime = time, callField = fld \<rparr>] \<rparr>)"

text \<open>
  \<^verbatim>\<open>
  setAirspeed(kias) {
    if (kias !== this.airspeed) {
      this.addLerp("airspeed",
        lerp(this.airspeed, kias, 1000, speed => { this.airspeed = speed; this.callListeners(); }));
    }
  }
  \<close>
  The other setters have the same shape, each with its own field, key and duration. The
  argument \<^verbatim>\<open>lerp(...)\<close> is evaluated before \<^verbatim>\<open>addLerp\<close> runs.
\<close>

definition setAirspeed :: "number \<Rightarrow> Airplane \<Rightarrow> Airplane" where
  "setAirspeed kias this =
     (if kias \<noteq> airspeed this
      then (let (h, this1) = Airplane_lerp (airspeed this) kias 1000 Airspeed this
            in Airplane_addLerp ''airspeed'' h this1)
      else this)"

definition setRPM :: "number \<Rightarrow> Airplane \<Rightarrow> Airplane" where
  "setRPM r this =
     (if r \<noteq> rpm this
      then (let (h, this1) = Airplane_lerp (rpm this) r 1000 Rpm this
            in Airplane_addLerp ''rpm'' h this1)
      else this)"

definition setAltitude :: "number \<Rightarrow> Airplane \<Rightarrow> Airplane" where
  "setAltitude feet this =
     (if feet \<noteq> altitude this
      then (let (h, this1) = Airplane_lerp (altitude this) feet 4000 Altitude this
            in Airplane_addLerp ''altitude'' h this1)
      else this)"

definition setAltitudeRate :: "number \<Rightarrow> Airplane \<Rightarrow> Airplane" where
  "setAltitudeRate verticalSpeed this =
     (if verticalSpeed \<noteq> altitudeRate this
      then (let (h, this1) = Airplane_lerp (altitudeRate this) verticalSpeed 4000 AltitudeRate this
            in Airplane_addLerp ''altitude-rate'' h this1)
      else this)"

text \<open>
  \<^verbatim>\<open>
  setBarometer(inchesOfMercury, immediate = false) {
    if (immediate) {
      this.barometer = inchesOfMercury;
      this.callListeners();
    } else {
      if (inchesOfMercury !== this.barometer) { this.addLerp("barometer", lerp(..., 4000, ...)); }
    }
  }
  \<close>
\<close>

definition setBarometer :: "number \<Rightarrow> bool \<Rightarrow> Airplane \<Rightarrow> Airplane" where
  "setBarometer inchesOfMercury immediate this =
     (if immediate then callListeners (this\<lparr> barometer := inchesOfMercury \<rparr>)
      else if inchesOfMercury \<noteq> barometer this
      then (let (h, this1) = Airplane_lerp (barometer this) inchesOfMercury 4000 Barometer this
            in Airplane_addLerp ''barometer'' h this1)
      else this)"

definition setHeading :: "number \<Rightarrow> Airplane \<Rightarrow> Airplane" where
  "setHeading magneticHeading this =
     (if magneticHeading \<noteq> heading this
      then (let (h, this1) = Airplane_lerp (heading this) magneticHeading 3000 Heading this
            in Airplane_addLerp ''heading'' h this1)
      else this)"

definition setRoll :: "number \<Rightarrow> Airplane \<Rightarrow> Airplane" where
  "setRoll degrees this =
     (if degrees \<noteq> roll this
      then (let (h, this1) = Airplane_lerp (roll this) degrees 3000 Roll this
            in Airplane_addLerp ''roll'' h this1)
      else this)"

definition setRollRate :: "number \<Rightarrow> Airplane \<Rightarrow> Airplane" where
  "setRollRate degreesPerSecond this =
     (if degreesPerSecond \<noteq> rollRate this
      then (let (h, this1) = Airplane_lerp (rollRate this) degreesPerSecond 3000 RollRate this
            in Airplane_addLerp ''roll-rate'' h this1)
      else this)"

definition setPitch :: "number \<Rightarrow> Airplane \<Rightarrow> Airplane" where
  "setPitch degrees this =
     (if degrees \<noteq> pitch this
      then (let (h, this1) = Airplane_lerp (pitch this) degrees 3000 Pitch this
            in Airplane_addLerp ''pitch'' h this1)
      else this)"

definition setYaw :: "number \<Rightarrow> Airplane \<Rightarrow> Airplane" where
  "setYaw degrees this =
     (if degrees \<noteq> yaw this
      then (let (h, this1) = Airplane_lerp (yaw this) degrees 3000 Yaw this
            in Airplane_addLerp ''yaw'' h this1)
      else this)"

text \<open>
  The callback of a call of \<^verbatim>\<open>lerp\<close>, run by the animation clock with the value of the
  tick: it writes the field and calls the listeners.
\<close>

fun write_field :: "field \<Rightarrow> number \<Rightarrow> Airplane \<Rightarrow> Airplane" where
  "write_field Airspeed v this = this\<lparr> airspeed := v \<rparr>"
| "write_field Rpm v this = this\<lparr> rpm := v \<rparr>"
| "write_field Altitude v this = this\<lparr> altitude := v \<rparr>"
| "write_field AltitudeRate v this = this\<lparr> altitudeRate := v \<rparr>"
| "write_field Barometer v this = this\<lparr> barometer := v \<rparr>"
| "write_field Heading v this = this\<lparr> heading := v \<rparr>"
| "write_field Roll v this = this\<lparr> roll := v \<rparr>"
| "write_field RollRate v this = this\<lparr> rollRate := v \<rparr>"
| "write_field Pitch v this = this\<lparr> pitch := v \<rparr>"
| "write_field Yaw v this = this\<lparr> yaw := v \<rparr>"

definition tick :: "field \<Rightarrow> number \<Rightarrow> Airplane \<Rightarrow> Airplane" where
  "tick fld v this = callListeners (write_field fld v this)"

text \<open>
  What starting an animation under \<open>key\<close> leaves behind: one more call of \<^verbatim>\<open>lerp\<close>,
  with the given arguments, whose cancel function is the one stored under the key.
\<close>

definition started :: "string \<Rightarrow> field \<Rightarrow> number \<Rightarrow> number \<Rightarrow> number \<Rightarrow> Airplane \<Rightarrow> Airplane \<Rightarrow> bool" where
  "started key fld from to time this this' =
     (lerpCalls this' = lerpCalls this
          @ [\<lparr> callFrom = from, callTo = to, callTime = time, callField = fld \<rparr>]
      \<and> map_of (lerps this') key = Some (Fun (length (lerpCalls this))))"

section \<open>Pointer capture dispatcher (utils/mouse)\<close>

text \<open>
  DOM nodes are identified by numbers. The platform answers two queries about them:
  \<^verbatim>\<open>a.compareDocumentPosition(b)\<close>, a bit mask whose bit 8 says that \<open>b\<close> contains \<open>a\<close>, and
  \<^verbatim>\<open>node.getBoundingClientRect()\<close>, of which only the corner \<open>(x, y)\<close> is read.
  Registered callbacks are opaque: \<open>calls\<close> lists the calls the dispatcher makes, in
  order, with their arguments; a callback does not call back into the dispatcher.
\<close>

type_synonym node = nat

record DOM =
  compareDocumentPosition :: "node \<Rightarrow> node \<Rightarrow> nat"
  getBoundingClientRect :: "node \<Rightarrow> Vector2D"

record Event =
  type :: string
  target :: node
  clientX :: number
  clientY :: number

record ear =
  node :: node
  callback :: callback
  includeDescendants :: bool

datatype mouse_call = Dispatched callback Event Vector2D bool | Synthetic callback

datatype error = TypeError

record Mouse = Disposable +
  hash :: "string \<rightharpoonup> ear list"
  captureNode :: "node option"
  calls :: "mouse_call list"

definition Mouse_new :: Mouse where
  "Mouse_new = Disposable.extend Disposable_new (Mouse.fields Map.empty None [])"

text \<open>
  \<^verbatim>\<open>
  eventToNode(node, event) {
    const box = node.getBoundingClientRect();
    return new Vector2D(event.clientX - box.x, event.clientY - box.y);
  }
  contains(ancestor, descendant) {
    const relationship = ancestor.compareDocumentPosition(descendant);
    return relationship & 8;
  }
  \<close>
\<close>

definition eventToNode :: "DOM \<Rightarrow> node \<Rightarrow> Event \<Rightarrow> Vector2D" where
  "eventToNode doc nd event =
     (let box = getBoundingClientRect doc nd
      in \<lparr> x = clientX event - x box, y = clientY event - y box \<rparr>)"

definition contains :: "DOM \<Rightarrow> node \<Rightarrow> node \<Rightarrow> bool" where
  "contains doc ancestor descendant =
     (let relationship = compareDocumentPosition doc ancestor descendant
      in bit relationship 3)"

text \<open>
  \<^verbatim>\<open>
  handleEvent(e) {
    const ears = this.hash[e.type];
    if (ears) {
      ears.forEach(ear => {
        if (this.captureNode) {
          ear.callback(e, this.eventToNode(ear.node, e), true);
        } else {
          if (e.target === ear.node ||
              (ear.includeDescendants && this.contains(e.target, ear.node))) {
            ear.callback(e, this.eventToNode(ear.node, e), false);
          }
        }
      });
    }
  }
  \<close>
\<close>

definition handleEar :: "DOM \<Rightarrow> Event \<Rightarrow> Mouse \<Rightarrow> ear \<Rightarrow> Mouse" where
  "handleEar doc e this ear =
     (if captureNode this \<noteq> None
      then this\<lparr> calls := calls this
             @ [Dispatched (callback ear) e (eventToNode doc (node ear) e) True] \<rparr>
      else if target e = node ear \<or> (includeDescendants ear \<and> contains doc (target e) (node ear))
      then this\<lparr> calls := calls this
             @ [Dispatched (callback ear) e (eventToNode doc (node ear) e) False] \<rparr>
      else this)"

definition handleEvent :: "DOM \<Rightarrow> Event \<Rightarrow> Mouse \<Rightarrow> Mouse" where
  "handleEvent doc e this =
     (case hash this (type e) of
        None \<Rightarrow> this
      | Some ears \<Rightarrow> foldl (handleEar doc e) this ears)"

text \<open>
  \<^verbatim>\<open>
  register(event, node, callback, includeDescendants = true) {
    if (!this.hash[event]) { this.hash[event] = []; }
    this.hash[event].push({ node, callback, includeDescendants });
  }
  findNode(eventName, node) {
    const list = this.hash[eventName];
    if (list) { return list.find(record => record.node === node); }
    return null;
  }
  setCapture(node) {
    this.releaseCapture();
    this.captureNode = node;
    const record = this.findNode("setCapture", this.captureNode);
    if (record) { record.callback(); }
  }
  releaseCapture() {
    if (this.captureNode) {
      const record = this.findNode("releaseCapture", this.captureNode);
      if (record) { record.callback(); }
      this.captureNode = null;
    }
  }
  \<close>
\<close>

definition register :: "string \<Rightarrow> node \<Rightarrow> callback \<Rightarrow> bool \<Rightarrow> Mouse \<Rightarrow> Mouse" where
  "register event nd cb incl this =
     (let ears = (case hash this event of None \<Rightarrow> [] | Some l \<Rightarrow> l)
      in this\<lparr> hash := (hash this)(event \<mapsto>
               ears @ [\<lparr> node = nd, callback = cb, includeDescendants = incl \<rparr>]) \<rparr>)"

definition findNode :: "string \<Rightarrow> node \<Rightarrow> Mouse \<Rightarrow> ear option" where
  "findNode eventName nd this =
     (case hash this eventName of
        Some l \<Rightarrow> find (\<lambda>record. node record = nd) l
      | None \<Rightarrow> None)"

definition releaseCapture :: "Mouse \<Rightarrow> Mouse" where
  "releaseCapture this =
     (case captureNode this of
        None \<Rightarrow> this
      | Some c \<Rightarrow>
          (let this1 = (case findNode ''releaseCapture'' c this of
                          Some record \<Rightarrow> this\<lparr> calls := calls this @ [Synthetic (callback record)] \<rparr>
                        | None \<Rightarrow> this)
           in this1\<lparr> captureNode := None \<rparr>))"

definition setCapture :: "node \<Rightarrow> Mouse \<Rightarrow> Mouse" where
  "setCapture nd this =
     (let this1 = (releaseCapture this)\<lparr> captureNode := Some nd \<rparr>
      in case findNode ''setCapture'' nd this1 of
           Some record \<Rightarrow> this1\<lparr> calls := calls this1 @ [Synthetic (callback record)] \<rparr>
         | None \<Rightarrow> this1)"

text \<open>
  \<^verbatim>\<open>
  unregister(event, node, callback, includeDescendants = true) {
    console.assert(this.hash[event], "nothing registered for this event");
    let removed = 0;
    this.hash[event].forEach((record, index) => {
      if (record.node === node && record.callback === callback &&
          record.includeDescendants === includeDescendants) {
        this.hash[event].splice(index, 1);
        if (record.node === this.captureNode) { this.releaseCapture(); }
        removed += 1;
      }
    });
    console.assert(removed !== 1, "unregister did not match exactly one record");
  }
  \<close>
  \<^verbatim>\<open>forEach\<close> reads the length of the array once, before the first call, and then visits
  the indices below it in order, skipping an index the array no longer has. The
  \<^verbatim>\<open>splice\<close> in the body shortens the array while the loop runs, so the loop is written
  out over the index: \<open>k\<close> is the index, \<open>len\<close> the length read at the start.
  Where nothing is registered for the event, \<^verbatim>\<open>this.hash[event].forEach\<close> throws a
  TypeError after the first assertion has failed.
\<close>

function unregister_forEach ::
  "string \<Rightarrow> node \<Rightarrow> callback \<Rightarrow> bool \<Rightarrow> nat \<Rightarrow> nat \<Rightarrow> nat \<times> Mouse \<Rightarrow> nat \<times> Mouse" where
  "unregister_forEach event nd cb incl k len (removed, this) =
     (if k < len then
        (let arr = (case hash this event of None \<Rightarrow> [] | Some l \<Rightarrow> l)
         in if k < length arr then
              (let record = arr ! k
               in if node record = nd \<and> callback record = cb \<and> includeDescendants record = incl
                  then (let this1 = this\<lparr> hash := (hash this)(event \<mapsto> take k arr @ drop (Suc k) arr) \<rparr>;
                            this2 = (if Some (node record) = captureNode this1
                                     then releaseCapture this1 else this1)
                        in unregister_forEach event nd cb incl (Suc k) len (removed + 1, this2))
                  else unregister_forEach event nd cb incl (Suc k) len (removed, this))
            else unregister_forEach event nd cb incl (Suc k) len (removed, this))
      else (removed, this))"
  by pat_completeness auto
termination
  by (relation "measure (\<lambda>(event, nd, cb, incl, k, len, rs). len - k)") auto

declare unregister_forEach.simps [simp del]

definition unregister ::
  "string \<Rightarrow> node \<Rightarrow> callback \<Rightarrow> bool \<Rightarrow> Mouse \<Rightarrow> (error \<times> Mouse) + Mouse" where
  "unregister event nd cb incl this =
     (let this0 = this\<lparr> console :=
            console_assert (hash this event \<noteq> None) ''nothing registered for this event''
              (console this) \<rparr>
      in case hash this0 event of
           None \<Rightarrow> Inl (TypeError, this0)
         | Some arr \<Rightarrow>
             (let (removed, this1) = unregister_forEach event nd cb incl 0 (length arr) (0, this0)
              in Inr (this1\<lparr> console :=
                   console_assert (removed \<noteq> 1) ''unregister did not match exactly one record''
                     (console this1) \<rparr>)))"

section \<open>Rotatable control (rotatable-button)\<close>

text \<open>
  \<^verbatim>\<open>
  const JITTER_THRESHOLD = 20;

  onMouseMove(e, local, capture) {
    if (capture && this.rotationCallback) {
      console.assert(isFinite(this.lastAngle), "lastAngle must be set");
      const angle = angleFrom(this.center, local);
      let delta = angularDelta(this.lastAngle, angle);
      this.lastAngle = angle;
      if (Math.abs(delta) < JITTER_THRESHOLD) {
        this.rotationCallback(delta * this.gear);
        this.rotation = this.rotation + delta;
        this.text.attr({ transform: `r ${this.rotation + this.randomOffset} ...` });
      }
    }
  }
  \<close>
  \<open>lastAngle\<close> is \<open>None\<close> until the first mouse-down sets it (the property is
  undefined): the assertion then fails, the delta is NaN and the comparison with the
  threshold is false. \<open>rotationCalls\<close> lists the arguments passed to the rotation
  callback, and \<open>textRotation\<close> is the angle last written to the label's transform.
\<close>

definition JITTER_THRESHOLD :: number where
  "JITTER_THRESHOLD = 20"

record Rotatable = Animated +
  radius :: number
  rotation :: number
  rotationCallback :: "callback option"
  clickCallback :: "callback option"
  gear :: number
  popout :: bool
  popState :: bool
  center :: Vector2D
  randomOffset :: number
  lastAngle :: "number option"
  rotationCalls :: "number list"
  textRotation :: number

definition onMouseMove :: "Event \<Rightarrow> Vector2D \<Rightarrow> bool \<Rightarrow> Rotatable \<Rightarrow> Rotatable" where
  "onMouseMove e local capture this =
     (if capture \<and> rotationCallback this \<noteq> None then
        (let this1 = this\<lparr> console :=
                 console_assert (lastAngle this \<noteq> None) ''lastAngle must be set'' (console this) \<rparr>;
             angle = angleFrom (center this1) local;
             this2 = this1\<lparr> lastAngle := Some angle \<rparr>
         in case lastAngle this1 of
              None \<Rightarrow> this2
            | Some la \<Rightarrow>
                (let delta = angularDelta la angle
                 in if \<bar>delta\<bar> < JITTER_THRESHOLD
                    then this2\<lparr> rotationCalls := rotationCalls this2 @ [delta * gear this2],
                                rotation := rotation this2 + delta,
                                textRotation := rotation this2 + delta + randomOffset this2 \<rparr>
                    else this2))
      else this)"

section \<open>Example objects\<close>

text \<open>
  A document whose nodes are unrelated and have their corner at the origin; a dispatcher
  with a \<^verbatim>\<open>mousemove\<close> registration for node 1 and one for node 2, node 1 holding the
  capture; a dispatcher with a single \<^verbatim>\<open>mousedown\<close> registration, and one with the same
  registration made three times.
\<close>

definition doc0 :: DOM where
  "doc0 = \<lparr> compareDocumentPosition = (\<lambda>a b. 0), getBoundingClientRect = (\<lambda>n. \<lparr> x = 0, y = 0 \<rparr>) \<rparr>"

definition move_on_2 :: Event where
  "move_on_2 = \<lparr> type = ''mousemove'', target = 2, clientX = 5, clientY = 7 \<rparr>"

definition two_nodes_captured :: Mouse where
  "two_nodes_captured =
     setCapture 1 (register ''mousemove'' 2 (Fun 20) True
                    (register ''mousemove'' 1 (Fun 10) True Mouse_new))"

definition one_registration :: Mouse where
  "one_registration = register ''mousedown'' 1 (Fun 10) True Mouse_new"

definition three_registrations :: Mouse where
  "three_registrations =
     register ''mousedown'' 1 (Fun 10) True
       (register ''mousedown'' 1 (Fun 10) True
         (register ''mousedown'' 1 (Fun 10) True Mouse_new))"


text \<open>
  A knob of radius 30 with a rotation callback, gear 1 and no random offset, whose last
  pointer angle is 0 (the pointer went down to the right of the center).
\<close>

definition knob :: Rotatable where
  "knob = Animated.extend Animated_new
     (Rotatable.fields 30 0 (Some (Fun 1)) None 1 False False \<lparr> x = 30, y = 30 \<rparr> 0 (Some 0) [] 0)"

definition move_event :: Event where
  "move_event = \<lparr> type = ''mousemove'', target = 1, clientX = 0, clientY = 0 \<rparr>"

section \<open>Properties of the angle functions\<close>

subsection \<open>Rounding\<close>
































subsection \<open>The angular delta\<close>

lemma angularDelta_raise_id: "-180 \<le> d \<Longrightarrow> angularDelta_raise d = d"
  by (subst angularDelta_raise.simps) simp

lemma angularDelta_lower_id: "d \<le> 180 \<Longrightarrow> angularDelta_lower d = d"
  by (subst angularDelta_lower.simps) simp













subsection \<open>The angle conventions\<close>

lemma js_rem_360_nonneg: "0 \<le> n \<Longrightarrow> 0 \<le> js_rem n 360 \<and> js_rem n 360 < 360"
proof -
  assume n: "0 \<le> n"
  have "of_int \<lfloor>n / 360\<rfloor> \<le> n / 360" and "n / 360 < of_int \<lfloor>n / 360\<rfloor> + 1"
    using floor_correct [of "n / 360"] by linarith+
  then have "360 * of_int \<lfloor>n / 360\<rfloor> \<le> n" and "n < 360 * of_int \<lfloor>n / 360\<rfloor> + 360"
    by linarith+
  with n show ?thesis by (simp add: js_rem_def js_trunc_def)
qed

lemma js_rem_360_neg: "n < 0 \<Longrightarrow> -360 < js_rem n 360 \<and> js_rem n 360 \<le> 0"
proof -
  assume n: "n < 0"
  have "n / 360 \<le> of_int \<lceil>n / 360\<rceil>" and "of_int \<lceil>n / 360\<rceil> - 1 < n / 360"
    using ceiling_correct [of "n / 360"] by linarith+
  then have "n \<le> 360 * of_int \<lceil>n / 360\<rceil>" and "360 * of_int \<lceil>n / 360\<rceil> - 360 < n"
    by linarith+
  with n show ?thesis by (simp add: js_rem_def js_trunc_def)
qed

lemma js_rem_cong: "\<exists>k::int. js_rem n d = n + d * of_int k"
proof -
  have "js_rem n d = n + d * of_int (- js_trunc (n / d))" by (simp add: js_rem_def)
  then show ?thesis by blast
qed

lemma js_rem_360_range:
  "(if 0 \<le> n then 0 \<le> js_rem n 360 \<and> js_rem n 360 < 360
    else -360 < js_rem n 360 \<and> js_rem n 360 \<le> 0)"
  using js_rem_360_nonneg [of n] js_rem_360_neg [of n] by simp

text \<open>
  Claim C6, as stated, fails: \<open>D2C 0\<close> is -90 (as the doc comment of D2C says) and
  \<open>C2D (-300)\<close> is -30, both outside the interval from 0 to 360.
\<close>

theorem C2D_D2C_counterexample:
  "D2C 0 = -90 \<and> \<not> (0 \<le> D2C 0 \<and> D2C 0 < 360)
   \<and> C2D (-300) = -30 \<and> \<not> (0 \<le> C2D (-300) \<and> C2D (-300) < 360)"
  by (simp add: D2C_def C2D_def js_rem_def js_trunc_def ceiling_def)

text \<open>
  Claim C6, amended. For every angle, \<open>C2D\<close> and \<open>D2C\<close> return the truncated remainder
  modulo 360 of \<open>270 + angle\<close> and of \<open>angle - 90\<close>: a value that differs from it by an
  integer multiple of 360 and lies in the interval from 0 (included) to 360 (excluded)
  when that sum is not negative (angle at least -270 for \<open>C2D\<close>, at least 90 for
  \<open>D2C\<close>), and in the interval from -360 (excluded) to 0 (included) otherwise.
\<close>

theorem C2D_D2C_signed_remainder:
  "(if -270 \<le> a then 0 \<le> C2D a \<and> C2D a < 360 else -360 < C2D a \<and> C2D a \<le> 0)
   \<and> (\<exists>k::int. C2D a = 270 + a + 360 * of_int k)
   \<and> (if 90 \<le> a then 0 \<le> D2C a \<and> D2C a < 360 else -360 < D2C a \<and> D2C a \<le> 0)
   \<and> (\<exists>k::int. D2C a = a - 90 + 360 * of_int k)"
proof -
  have c: "if -270 \<le> a then 0 \<le> C2D a \<and> C2D a < 360 else -360 < C2D a \<and> C2D a \<le> 0"
    using js_rem_360_range [of "270 + a"] by (simp add: C2D_def)
  have d: "if 90 \<le> a then 0 \<le> D2C a \<and> D2C a < 360 else -360 < D2C a \<and> D2C a \<le> 0"
    using js_rem_360_range [of "a - 90"] by (simp add: D2C_def)
  have ck: "\<exists>k::int. C2D a = 270 + a + 360 * of_int k"
    unfolding C2D_def by (rule js_rem_cong)
  have dk: "\<exists>k::int. D2C a = a - 90 + 360 * of_int k"
    unfolding D2C_def by (rule js_rem_cong)
  from c d ck dk show ?thesis by blast
qed

theorem C2D_D2C_signed_remainder_witness:
  "0 \<le> C2D 100 \<and> C2D 100 < 360 \<and> -360 < C2D (-300) \<and> C2D (-300) \<le> 0
   \<and> 0 \<le> D2C 100 \<and> D2C 100 < 360 \<and> -360 < D2C (-300) \<and> D2C (-300) \<le> 0"
  using C2D_D2C_signed_remainder [of 100] C2D_D2C_signed_remainder [of "-300"] by simp

section \<open>Properties of the AnimatedValue constructor\<close>

text \<open>
  Claim C10. For every options object and every initial value, the constructor returns
  an instance whose \<open>lowLimit\<close> is \<open>-Number.MAX_VALUE\<close>, whose \<open>hiLimit\<close> is
  \<open>Number.MAX_VALUE\<close>, whose \<open>time\<close> is 1000 and whose \<open>callback\<close> is the no-op
  function, whatever the options hold under these names: the defaults are merged after
  the options.
\<close>

theorem AnimatedValue_defaults_overwrite_options:
  "\<exists>this. AnimatedValue_new v options = Some this
     \<and> this ''lowLimit'' = Some (Num (- MAX_VALUE))
     \<and> this ''hiLimit'' = Some (Num MAX_VALUE)
     \<and> this ''time'' = Some (Num 1000)
     \<and> this ''callback'' = Some (Function Noop)"
  by (simp add: AnimatedValue_new_def Object_assign_def AnimatedValue_defaults_def map_add_def)

section \<open>Properties of the listener collection\<close>

lemma addListener_fresh_distinct:
  "distinct (listeners this) \<Longrightarrow> func \<notin> set (listeners this) \<Longrightarrow>
   distinct (listeners (addListener func this))"
  by (simp add: addListener_def Let_def)

lemma removeListener_distinct:
  "distinct (listeners this) \<Longrightarrow> distinct (listeners (removeListener func this))"
  by (simp add: removeListener_def Let_def)

text \<open>
  Claim C9 at its failing input: \<open>addListener\<close> called twice with the same function on
  a new object. The second call writes "listener already registered" to the console and
  then appends the function all the same, so the collection holds it twice.
\<close>

theorem addListener_twice_inserts_duplicate:
  "listeners (listener_run [AddListener (Function (Fun 1)), AddListener (Function (Fun 1))]
       Disposable_new)
     = [Function (Fun 1), Function (Fun 1)]
   \<and> console (listener_run [AddListener (Function (Fun 1)), AddListener (Function (Fun 1))]
       Disposable_new)
     = [''listener already registered'']"
  by (simp add: listener_run_def addListener_def Disposable_new_def console_assert_def)

section \<open>Properties of the keyed animation set\<close>

lemma running_append: "running (t @ es) = foldl running_step (running t) es"
  by (simp add: running_def)

lemma table_ok_cancel:
  assumes "table_ok table trace" and "map_of table key = Some f"
  shows "table_ok (AList.delete key table) (trace @ [Invoked f, Deleted key])"
  using assms
  by (auto simp: table_ok_def running_append distinct_delete delete_conv)

lemma table_ok_store:
  assumes "table_ok table trace" and "map_of table key = None"
  shows "table_ok (AList.update key f table) (trace @ [Stored key f])"
  using assms
  by (auto simp: table_ok_def running_append distinct_update update_conv)

lemma running_invoke_all:
  "foldl running_step R (map Invoked fs) = {kf \<in> R. snd kf \<notin> set fs}"
  by (induction fs arbitrary: R) auto

lemma table_ok_cancel_all:
  assumes "table_ok table trace"
  shows "table_ok [] (trace @ map Invoked (map snd table))"
proof -
  have "snd kf \<in> set (map snd table)" if "kf \<in> running trace" for kf
  proof -
    from assms that have "map_of table (fst kf) = Some (snd kf)" by (simp add: table_ok_def)
    then have "(fst kf, snd kf) \<in> set table" by (rule map_of_SomeD)
    then show ?thesis by force
  qed
  then have "running (trace @ map Invoked (map snd table)) = {}"
    unfolding running_append running_invoke_all by blast
  then show ?thesis unfolding table_ok_def by simp
qed

lemma cancelLerp_ok:
  "table_ok (Animated.lerps this) (Animated.lerpTrace this) \<Longrightarrow>
   table_ok (Animated.lerps (cancelLerp key this)) (Animated.lerpTrace (cancelLerp key this))"
  by (auto simp: cancelLerp_def table_ok_cancel split: option.splits)

lemma cancelLerp_none: "distinct (map fst (Animated.lerps this)) \<Longrightarrow> map_of (Animated.lerps (cancelLerp key this)) key = None"
  by (auto simp: cancelLerp_def delete_conv split: option.splits)

lemma addLerp_ok:
  assumes "table_ok (Animated.lerps this) (Animated.lerpTrace this)"
  shows "table_ok (Animated.lerps (addLerp key f this)) (Animated.lerpTrace (addLerp key f this))"
proof -
  let ?c = "cancelLerp key this"
  have ok: "table_ok (Animated.lerps ?c) (Animated.lerpTrace ?c)"
    using assms by (rule cancelLerp_ok)
  have "distinct (map fst (Animated.lerps this))" using assms by (simp add: table_ok_def)
  then have none: "map_of (Animated.lerps ?c) key = None" by (rule cancelLerp_none)
  from table_ok_store [OF ok none] show ?thesis
    by (simp add: addLerp_def Let_def)
qed

lemma cancelAllLerps_ok:
  "table_ok (Animated.lerps this) (Animated.lerpTrace this) \<Longrightarrow>
   table_ok (Animated.lerps (cancelAllLerps this)) (Animated.lerpTrace (cancelAllLerps this))"
  using table_ok_cancel_all [of "Animated.lerps this" "Animated.lerpTrace this"]
  by (simp add: cancelAllLerps_def del: map_map)

lemma lerp_step_ok:
  "table_ok (Animated.lerps this) (Animated.lerpTrace this) \<Longrightarrow>
   table_ok (Animated.lerps (lerp_step this op)) (Animated.lerpTrace (lerp_step this op))"
  by (cases op) (simp_all add: addLerp_ok cancelLerp_ok cancelAllLerps_ok)

lemma lerp_steps_ok:
  "table_ok (Animated.lerps this) (Animated.lerpTrace this) \<Longrightarrow>
   table_ok (Animated.lerps (foldl lerp_step this ops)) (Animated.lerpTrace (foldl lerp_step this ops))"
  by (induction ops arbitrary: this) (simp_all add: lerp_step_ok)

lemma Animated_new_ok: "table_ok (Animated.lerps Animated_new) (Animated.lerpTrace Animated_new)"
  by (simp add: Animated_new_def Disposable.extend_def Animated.fields_def Disposable_new_def table_ok_def running_def Disposable.defs Animated.defs)

lemma addLerp_stored:
  "map_of (Animated.lerps this) key = Some f1 \<Longrightarrow>
   Animated.lerpTrace (addLerp key f2 this) = Animated.lerpTrace this @ [Invoked f1, Deleted key, Stored key f2]
   \<and> map_of (Animated.lerps (addLerp key f2 this)) key = Some f2"
  by (simp add: addLerp_def cancelLerp_def Let_def update_conv)

lemma addLerp_lookup: "map_of (Animated.lerps (addLerp key f this)) key = Some f"
  by (simp add: addLerp_def Let_def update_conv)

lemma Airplane_cancelLerp_ok:
  "table_ok (lerps this) (lerpTrace this) \<Longrightarrow>
   table_ok (lerps (Airplane_cancelLerp key this)) (lerpTrace (Airplane_cancelLerp key this))"
  by (auto simp: Airplane_cancelLerp_def table_ok_cancel split: option.splits)

lemma Airplane_cancelLerp_none:
  "distinct (map fst (lerps this)) \<Longrightarrow> map_of (lerps (Airplane_cancelLerp key this)) key = None"
  by (auto simp: Airplane_cancelLerp_def delete_conv split: option.splits)

lemma Airplane_addLerp_ok:
  assumes "table_ok (lerps this) (lerpTrace this)"
  shows "table_ok (lerps (Airplane_addLerp key f this)) (lerpTrace (Airplane_addLerp key f this))"
proof -
  let ?c = "Airplane_cancelLerp key this"
  have ok: "table_ok (lerps ?c) (lerpTrace ?c)"
    using assms by (rule Airplane_cancelLerp_ok)
  have "distinct (map fst (lerps this))" using assms by (simp add: table_ok_def)
  then have none: "map_of (lerps ?c) key = None" by (rule Airplane_cancelLerp_none)
  from table_ok_store [OF ok none] show ?thesis
    by (simp add: Airplane_addLerp_def Let_def)
qed

lemma Airplane_cancelAll_ok:
  "table_ok (lerps this) (lerpTrace this) \<Longrightarrow>
   table_ok (lerps (Airplane_cancelAll this)) (lerpTrace (Airplane_cancelAll this))"
  using table_ok_cancel_all [of "lerps this" "lerpTrace this"]
  by (simp add: Airplane_cancelAll_def del: map_map)

lemma Airplane_lerp_step_ok:
  "table_ok (lerps this) (lerpTrace this) \<Longrightarrow>
   table_ok (lerps (Airplane_lerp_step this op)) (lerpTrace (Airplane_lerp_step this op))"
  by (cases op) (simp_all add: Airplane_addLerp_ok Airplane_cancelLerp_ok Airplane_cancelAll_ok)

lemma Airplane_lerp_steps_ok:
  "table_ok (lerps this) (lerpTrace this) \<Longrightarrow>
   table_ok (lerps (foldl Airplane_lerp_step this ops)) (lerpTrace (foldl Airplane_lerp_step this ops))"
  by (induction ops arbitrary: this) (simp_all add: Airplane_lerp_step_ok)

lemma Airplane_new_lerps: "lerps Airplane_new = [] \<and> lerpTrace Airplane_new = []"
  by (simp add: Airplane_new_def Disposable.extend_def Airplane.fields_def Disposable_new_def)

lemma Airplane_new_ok: "table_ok (lerps Airplane_new) (lerpTrace Airplane_new)"
  by (simp add: Airplane_new_lerps table_ok_def running_def)

lemma Airplane_addLerp_stored:
  "map_of (lerps this) key = Some f1 \<Longrightarrow>
   lerpTrace (Airplane_addLerp key f2 this) = lerpTrace this @ [Invoked f1, Deleted key, Stored key f2]"
  by (simp add: Airplane_addLerp_def Airplane_cancelLerp_def Let_def)

lemma Airplane_addLerp_lookup: "map_of (lerps (Airplane_addLerp key f this)) key = Some f"
  by (simp add: Airplane_addLerp_def Let_def update_conv)

text \<open>
  Claim C3. In the Animated base class and in the Airplane, after any sequence of
  \<open>addLerp\<close>, \<open>cancelLerp\<close> and cancel-all calls on a new object the table holds at
  most one cancel function per key, and every animation still running is the one the
  table holds under its key. When \<open>addLerp key f2\<close> follows \<open>addLerp key f1\<close>, the
  trace continues with the call of \<open>f1\<close>, the deletion of the key and only then the
  store of \<open>f2\<close>: \<open>f1\<close> has been invoked before \<open>f2\<close> is stored.
\<close>

theorem keyed_animation_set_one_handle_per_key:
  "table_ok (Animated.lerps (foldl lerp_step Animated_new ops))
            (Animated.lerpTrace (foldl lerp_step Animated_new ops))
   \<and> table_ok (lerps (foldl Airplane_lerp_step Airplane_new ops))
               (lerpTrace (foldl Airplane_lerp_step Airplane_new ops))
   \<and> map_of (Animated.lerps (addLerp key f1 this)) key = Some f1
   \<and> Animated.lerpTrace (addLerp key f2 (addLerp key f1 this))
       = Animated.lerpTrace (addLerp key f1 this) @ [Invoked f1, Deleted key, Stored key f2]
   \<and> map_of (lerps (Airplane_addLerp key f1 plane)) key = Some f1
   \<and> lerpTrace (Airplane_addLerp key f2 (Airplane_addLerp key f1 plane))
       = lerpTrace (Airplane_addLerp key f1 plane) @ [Invoked f1, Deleted key, Stored key f2]"
proof -
  have a: "table_ok (Animated.lerps (foldl lerp_step Animated_new ops))
            (Animated.lerpTrace (foldl lerp_step Animated_new ops))"
    using Animated_new_ok by (rule lerp_steps_ok)
  have b: "table_ok (lerps (foldl Airplane_lerp_step Airplane_new ops))
               (lerpTrace (foldl Airplane_lerp_step Airplane_new ops))"
    using Airplane_new_ok by (rule Airplane_lerp_steps_ok)
  have c: "map_of (Animated.lerps (addLerp key f1 this)) key = Some f1"
    by (rule addLerp_lookup)
  have d: "Animated.lerpTrace (addLerp key f2 (addLerp key f1 this))
       = Animated.lerpTrace (addLerp key f1 this) @ [Invoked f1, Deleted key, Stored key f2]"
    using addLerp_stored [OF c] by simp
  have e: "map_of (lerps (Airplane_addLerp key f1 plane)) key = Some f1"
    by (rule Airplane_addLerp_lookup)
  have f: "lerpTrace (Airplane_addLerp key f2 (Airplane_addLerp key f1 plane))
       = lerpTrace (Airplane_addLerp key f1 plane) @ [Invoked f1, Deleted key, Stored key f2]"
    using Airplane_addLerp_stored [OF e] by simp
  from a b c d e f show ?thesis by blast
qed

lemma Animated_new_lerps: "Animated.lerps Animated_new = [] \<and> Animated.lerpTrace Animated_new = []"
  by (simp add: Animated_new_def Disposable.extend_def Animated.fields_def Disposable_new_def)

theorem keyed_animation_set_witness:
  "Animated.lerps (foldl lerp_step Animated_new [AddLerp ''scale'' (Fun 1), AddLerp ''scale'' (Fun 2)])
     = [(''scale'', Fun 2)]
   \<and> running (Animated.lerpTrace
        (foldl lerp_step Animated_new [AddLerp ''scale'' (Fun 1), AddLerp ''scale'' (Fun 2)]))
     = {(''scale'', Fun 2)}
   \<and> lerps (foldl Airplane_lerp_step Airplane_new [AddLerp ''scale'' (Fun 1), AddLerp ''scale'' (Fun 2)])
     = [(''scale'', Fun 2)]
   \<and> Animated.lerpTrace (addLerp ''scale'' (Fun 2) (addLerp ''scale'' (Fun 1) Animated_new))
     = [Stored ''scale'' (Fun 1), Invoked (Fun 1), Deleted ''scale'', Stored ''scale'' (Fun 2)]
   \<and> lerpTrace (Airplane_addLerp ''scale'' (Fun 2) (Airplane_addLerp ''scale'' (Fun 1) Airplane_new))
     = [Stored ''scale'' (Fun 1), Invoked (Fun 1), Deleted ''scale'', Stored ''scale'' (Fun 2)]"
  using keyed_animation_set_one_handle_per_key
    [of "[AddLerp ''scale'' (Fun 1), AddLerp ''scale'' (Fun 2)]" "''scale''" "Fun 1" Animated_new
        "Fun 2" Airplane_new]
  by (auto simp: addLerp_def cancelLerp_def Airplane_addLerp_def Airplane_cancelLerp_def
      Animated_new_lerps Airplane_new_lerps Let_def running_def)

section \<open>Properties of the animation clock\<close>













section \<open>Properties of the aircraft state setters\<close>

lemma Airplane_new_simps:
  "lerps Airplane_new = []" "lerpTrace Airplane_new = []" "lerpCalls Airplane_new = []"
  "airspeed Airplane_new = 0" "listeners Airplane_new = []"
  by (simp_all add: Airplane_new_def Disposable.extend_def Airplane.fields_def Disposable_new_def)

lemma Airplane_addLerp_lerpCalls: "lerpCalls (Airplane_addLerp key f this) = lerpCalls this"
  by (simp add: Airplane_addLerp_def Airplane_cancelLerp_def Let_def split: option.splits)

lemma start_lerp:
  "started key fld from to time this
     (Airplane_addLerp key (fst (Airplane_lerp from to time fld this))
        (snd (Airplane_lerp from to time fld this)))"
  by (simp add: started_def Airplane_addLerp_lerpCalls Airplane_addLerp_lookup Airplane_lerp_def)

lemma setAirspeed_starts:
  "(if v \<noteq> airspeed this
    then started ''airspeed'' Airspeed (airspeed this) v 1000 this (setAirspeed v this)
    else setAirspeed v this = this)"
  using start_lerp [of "''airspeed''" Airspeed "airspeed this" v 1000 this]
  by (simp add: setAirspeed_def split_beta)

lemma setRPM_starts:
  "(if v \<noteq> rpm this
    then started ''rpm'' Rpm (rpm this) v 1000 this (setRPM v this)
    else setRPM v this = this)"
  using start_lerp [of "''rpm''" Rpm "rpm this" v 1000 this]
  by (simp add: setRPM_def split_beta)

lemma setAltitude_starts:
  "(if v \<noteq> altitude this
    then started ''altitude'' Altitude (altitude this) v 4000 this (setAltitude v this)
    else setAltitude v this = this)"
  using start_lerp [of "''altitude''" Altitude "altitude this" v 4000 this]
  by (simp add: setAltitude_def split_beta)

lemma setAltitudeRate_starts:
  "(if v \<noteq> altitudeRate this
    then started ''altitude-rate'' AltitudeRate (altitudeRate this) v 4000 this (setAltitudeRate v this)
    else setAltitudeRate v this = this)"
  using start_lerp [of "''altitude-rate''" AltitudeRate "altitudeRate this" v 4000 this]
  by (simp add: setAltitudeRate_def split_beta)

lemma setHeading_starts:
  "(if v \<noteq> heading this
    then started ''heading'' Heading (heading this) v 3000 this (setHeading v this)
    else setHeading v this = this)"
  using start_lerp [of "''heading''" Heading "heading this" v 3000 this]
  by (simp add: setHeading_def split_beta)

lemma setRoll_starts:
  "(if v \<noteq> roll this
    then started ''roll'' Roll (roll this) v 3000 this (setRoll v this)
    else setRoll v this = this)"
  using start_lerp [of "''roll''" Roll "roll this" v 3000 this]
  by (simp add: setRoll_def split_beta)

lemma setRollRate_starts:
  "(if v \<noteq> rollRate this
    then started ''roll-rate'' RollRate (rollRate this) v 3000 this (setRollRate v this)
    else setRollRate v this = this)"
  using start_lerp [of "''roll-rate''" RollRate "rollRate this" v 3000 this]
  by (simp add: setRollRate_def split_beta)

lemma setPitch_starts:
  "(if v \<noteq> pitch this
    then started ''pitch'' Pitch (pitch this) v 3000 this (setPitch v this)
    else setPitch v this = this)"
  using start_lerp [of "''pitch''" Pitch "pitch this" v 3000 this]
  by (simp add: setPitch_def split_beta)

lemma setYaw_starts:
  "(if v \<noteq> yaw this
    then started ''yaw'' Yaw (yaw this) v 3000 this (setYaw v this)
    else setYaw v this = this)"
  using start_lerp [of "''yaw''" Yaw "yaw this" v 3000 this]
  by (simp add: setYaw_def split_beta)

lemma setBarometer_starts:
  "(if v \<noteq> barometer this
    then started ''barometer'' Barometer (barometer this) v 4000 this (setBarometer v False this)
    else setBarometer v False this = this)"
  using start_lerp [of "''barometer''" Barometer "barometer this" v 4000 this]
  by (simp add: setBarometer_def split_beta)

lemma setBarometer_immediate:
  "lerpCalls (setBarometer v True this) = lerpCalls this
   \<and> lerps (setBarometer v True this) = lerps this
   \<and> barometer (setBarometer v True this) = v"
  by (simp add: setBarometer_def callListeners_def)

text \<open>
  Claim C8, amended. Every setter starts a new animation (one more call of \<^verbatim>\<open>lerp\<close>,
  from the live value of the field to the requested value, with the duration of the
  field, stored under the key of the field) if and only if the requested value differs
  from the live, animating value of the field, and leaves the airplane unchanged
  otherwise. The barometer's immediate mode writes the value and starts no animation.
\<close>

theorem setters_compare_with_live_value:
  "(if v \<noteq> airspeed this
    then started ''airspeed'' Airspeed (airspeed this) v 1000 this (setAirspeed v this)
    else setAirspeed v this = this)
   \<and> (if v \<noteq> rpm this
    then started ''rpm'' Rpm (rpm this) v 1000 this (setRPM v this)
    else setRPM v this = this)
   \<and> (if v \<noteq> altitude this
    then started ''altitude'' Altitude (altitude this) v 4000 this (setAltitude v this)
    else setAltitude v this = this)
   \<and> (if v \<noteq> altitudeRate this
    then started ''altitude-rate'' AltitudeRate (altitudeRate this) v 4000 this (setAltitudeRate v this)
    else setAltitudeRate v this = this)
   \<and> (if v \<noteq> heading this
    then started ''heading'' Heading (heading this) v 3000 this (setHeading v this)
    else setHeading v this = this)
   \<and> (if v \<noteq> roll this
    then started ''roll'' Roll (roll this) v 3000 this (setRoll v this)
    else setRoll v this = this)
   \<and> (if v \<noteq> rollRate this
    then started ''roll-rate'' RollRate (rollRate this) v 3000 this (setRollRate v this)
    else setRollRate v this = this)
   \<and> (if v \<noteq> pitch this
    then started ''pitch'' Pitch (pitch this) v 3000 this (setPitch v this)
    else setPitch v this = this)
   \<and> (if v \<noteq> yaw this
    then started ''yaw'' Yaw (yaw this) v 3000 this (setYaw v this)
    else setYaw v this = this)
   \<and> (if v \<noteq> barometer this
    then started ''barometer'' Barometer (barometer this) v 4000 this (setBarometer v False this)
    else setBarometer v False this = this)
   \<and> lerpCalls (setBarometer v True this) = lerpCalls this
   \<and> lerps (setBarometer v True this) = lerps this
   \<and> barometer (setBarometer v True this) = v"
  using setAirspeed_starts [of v this] setRPM_starts [of v this] setAltitude_starts [of v this] setAltitudeRate_starts [of v this] setHeading_starts [of v this] setRoll_starts [of v this] setRollRate_starts [of v this] setPitch_starts [of v this] setYaw_starts [of v this]
    setBarometer_starts [of v this] setBarometer_immediate [of v this]
  by blast

theorem setters_compare_with_live_value_witness:
  "started ''airspeed'' Airspeed 0 120 1000 Airplane_new (setAirspeed 120 Airplane_new)
   \<and> setAirspeed 0 Airplane_new = Airplane_new
   \<and> lerpCalls (setAirspeed 120 Airplane_new)
       = [\<lparr> callFrom = 0, callTo = 120, callTime = 1000, callField = Airspeed \<rparr>]"
  using setters_compare_with_live_value [of 120 Airplane_new]
    setters_compare_with_live_value [of 0 Airplane_new]
  by (simp add: Airplane_new_simps started_def)


text \<open>
  Claim C8, as stated, fails. On a new airplane \<open>setAirspeed 120\<close> starts an animation
  and the live airspeed is still 0. A second \<open>setAirspeed 120\<close>, the target just
  requested, starts a second animation, at once or after a tick has brought the live
  value to 60. And \<open>setAirspeed 0\<close>, a target that differs from the one requested last,
  starts none while the live value is still 0.
\<close>

theorem setAirspeed_same_target_counterexample:
  "airspeed (setAirspeed 120 Airplane_new) = 0
   \<and> length (lerpCalls (setAirspeed 120 Airplane_new)) = 1
   \<and> length (lerpCalls (setAirspeed 120 (setAirspeed 120 Airplane_new))) = 2
   \<and> length (lerpCalls (setAirspeed 120 (tick Airspeed 60 (setAirspeed 120 Airplane_new)))) = 2
   \<and> length (lerpCalls (setAirspeed 0 (setAirspeed 120 Airplane_new))) = 1"
  by (simp add: setAirspeed_def Airplane_lerp_def Airplane_addLerp_def Airplane_cancelLerp_def
      Airplane_new_simps tick_def callListeners_def Let_def)

section \<open>Properties of the pointer capture dispatcher\<close>

lemma Mouse_new_simps:
  "hash Mouse_new = Map.empty" "captureNode Mouse_new = None" "calls Mouse_new = []"
  "console Mouse_new = []"
  by (simp_all add: Mouse_new_def Disposable.extend_def Mouse.fields_def Disposable_new_def)

lemma two_nodes_captured_simps:
  "captureNode two_nodes_captured = Some 1"
  "calls two_nodes_captured = []"
  "hash two_nodes_captured ''mousemove'' =
     Some [\<lparr> node = 1, callback = Fun 10, includeDescendants = True \<rparr>,
           \<lparr> node = 2, callback = Fun 20, includeDescendants = True \<rparr>]"
  by (simp_all add: two_nodes_captured_def setCapture_def releaseCapture_def register_def
      findNode_def Mouse_new_simps Let_def)

lemma handleEvent_capturing:
  assumes "captureNode this = Some c" and "hash this (type e) = Some ears"
  shows "calls (handleEvent doc e this)
     = calls this @ map (\<lambda>ear. Dispatched (callback ear) e (eventToNode doc (node ear) e) True) ears"
proof -
  have "captureNode (foldl (handleEar doc e) m es) = Some c
        \<and> calls (foldl (handleEar doc e) m es)
          = calls m @ map (\<lambda>ear. Dispatched (callback ear) e (eventToNode doc (node ear) e) True) es"
    if "captureNode m = Some c" for m :: Mouse and es
    using that by (induction es arbitrary: m) (simp_all add: handleEar_def)
  with assms show ?thesis by (simp add: handleEvent_def)
qed

text \<open>
  Claim C1 at its failing input: node 1 holds the capture and a \<^verbatim>\<open>mousemove\<close> event
  arrives. The dispatcher calls the callback registered for node 1 and also the callback
  registered for node 2, both with the capturing flag set.
\<close>

theorem handleEvent_capture_calls_other_node:
  "calls (handleEvent doc0 move_on_2 two_nodes_captured)
     = [Dispatched (Fun 10) move_on_2 \<lparr> x = 5, y = 7 \<rparr> True,
        Dispatched (Fun 20) move_on_2 \<lparr> x = 5, y = 7 \<rparr> True]"
  by (simp add: handleEvent_def handleEar_def two_nodes_captured_simps eventToNode_def
      doc0_def Let_def move_on_2_def)

lemma one_registration_simps:
  "hash one_registration ''mousedown'' = Some [\<lparr> node = 1, callback = Fun 10, includeDescendants = True \<rparr>]"
  "captureNode one_registration = None" "console one_registration = []"
  by (simp_all add: one_registration_def register_def Mouse_new_simps)

lemma three_registrations_simps:
  "hash three_registrations ''mousedown'' =
     Some [\<lparr> node = 1, callback = Fun 10, includeDescendants = True \<rparr>,
           \<lparr> node = 1, callback = Fun 10, includeDescendants = True \<rparr>,
           \<lparr> node = 1, callback = Fun 10, includeDescendants = True \<rparr>]"
  "captureNode three_registrations = None" "console three_registrations = []"
  by (simp_all add: three_registrations_def register_def Mouse_new_simps)

text \<open>
  Claim C5 at its failing inputs. Unregistering the one matching registration removes it
  and writes "unregister did not match exactly one record" to the console. Unregistering
  with a callback that matches no registration writes nothing. With the same
  registration present three times, two are removed (the \<^verbatim>\<open>splice\<close> makes the loop skip
  the record after each one removed) and nothing is written.
\<close>

theorem unregister_assertion_inverted:
  "(\<exists>this. unregister ''mousedown'' 1 (Fun 10) True one_registration = Inr this
      \<and> hash this ''mousedown'' = Some []
      \<and> console this = [''unregister did not match exactly one record''])
   \<and> (\<exists>this. unregister ''mousedown'' 1 (Fun 99) True one_registration = Inr this
      \<and> hash this ''mousedown'' = hash one_registration ''mousedown''
      \<and> console this = [])
   \<and> (\<exists>this. unregister ''mousedown'' 1 (Fun 10) True three_registrations = Inr this
      \<and> hash this ''mousedown''
          = Some [\<lparr> node = 1, callback = Fun 10, includeDescendants = True \<rparr>]
      \<and> console this = [])"
  by (simp add: unregister_def unregister_forEach.simps one_registration_simps
      three_registrations_simps console_assert_def Let_def)

section \<open>Properties of the rotatable control\<close>

lemma knob_simps:
  "rotationCallback knob = Some (Fun 1)" "lastAngle knob = Some 0" "center knob = \<lparr> x = 30, y = 30 \<rparr>"
  "rotationCalls knob = []" "rotation knob = 0" "gear knob = 1" "randomOffset knob = 0"
  "console knob = []"
  by (simp_all add: knob_def Animated.extend_def Rotatable.fields_def Animated_new_def
      Disposable.extend_def Animated.fields_def Disposable_new_def)

lemma angleFrom_quarter: "angleFrom \<lparr> x = 30, y = 30 \<rparr> \<lparr> x = 30, y = 31 \<rparr> = 90"
  by (simp add: angleFrom_def atan2_def Let_def)

lemma angularDelta_0_90: "angularDelta 0 90 = 90"
  by (simp add: angularDelta_def angularDelta_raise_id angularDelta_lower_id)

text \<open>
  Claim C4, as stated, fails. The knob's last angle is 0 and the pointer moves to the
  point below the center, at angle 90: the delta of 90 exceeds the threshold, yet
  \<open>lastAngle\<close> becomes 90. The assignment to \<open>lastAngle\<close> stands before the test of the
  threshold.
\<close>

theorem onMouseMove_lastAngle_counterexample:
  "JITTER_THRESHOLD < \<bar>angularDelta 0 (angleFrom (center knob) \<lparr> x = 30, y = 31 \<rparr>)\<bar>
   \<and> lastAngle knob = Some 0
   \<and> lastAngle (onMouseMove move_event \<lparr> x = 30, y = 31 \<rparr> True knob) = Some 90
   \<and> lastAngle (onMouseMove move_event \<lparr> x = 30, y = 31 \<rparr> True knob) \<noteq> lastAngle knob"
  by (simp add: onMouseMove_def knob_simps angleFrom_quarter angularDelta_0_90 JITTER_THRESHOLD_def
      console_assert_def Let_def)

text \<open>
  Claim C4, amended. For a control that is capturing and has a rotation callback, a
  mouse-move sample whose angular delta from \<open>lastAngle\<close> exceeds the jitter threshold of
  20 degrees in magnitude calls the rotation callback zero times and leaves the rotation
  accumulator unchanged, and \<open>lastAngle\<close> becomes the angle of the sample.
\<close>

theorem onMouseMove_discards_jitter:
  assumes "capture" and "rotationCallback this = Some cb" and "lastAngle this = Some la"
    and "JITTER_THRESHOLD < \<bar>angularDelta la (angleFrom (center this) local)\<bar>"
  shows "rotationCalls (onMouseMove e local capture this) = rotationCalls this
     \<and> rotation (onMouseMove e local capture this) = rotation this
     \<and> lastAngle (onMouseMove e local capture this) = Some (angleFrom (center this) local)"
  using assms by (simp add: onMouseMove_def Let_def console_assert_def)

theorem onMouseMove_discards_jitter_witness:
  "rotationCalls (onMouseMove move_event \<lparr> x = 30, y = 31 \<rparr> True knob) = []
   \<and> rotation (onMouseMove move_event \<lparr> x = 30, y = 31 \<rparr> True knob) = 0
   \<and> lastAngle (onMouseMove move_event \<lparr> x = 30, y = 31 \<rparr> True knob) = Some 90"
  using onMouseMove_discards_jitter [of True knob "Fun 1" 0 "\<lparr> x = 30, y = 31 \<rparr>" move_event]
  by (simp add: knob_simps angleFrom_quarter angularDelta_0_90 JITTER_THRESHOLD_def)

end
